theory Spec2Isabelle
  imports Main "HOL-Library.Sublist"
begin

section \<open>Standard output\<close>

text \<open>
  Every statement of \<^verbatim>\<open>main.cpp\<close> that writes to \<^verbatim>\<open>cout\<close> writes one complete
  line (it ends in \<^verbatim>\<open>"\n"\<close> or \<^verbatim>\<open>endl\<close>). The stream is the list of the lines
  written so far, oldest first; a line is the text in front of its newline.
\<close>

type_synonym ostream = "string list"

section \<open>Observer pattern\<close>

text \<open>
  \<^verbatim>\<open>DrawSubscriber\<close> has the two concrete classes \<^verbatim>\<open>RegSub\<close> and
  \<^verbatim>\<open>ContrastImageSub\<close>. Neither has a field, so an object is its class.
\<close>

datatype DrawSubscriber = RegSub | ContrastImageSub

fun DrawSubscriber_notify :: "DrawSubscriber \<Rightarrow> string \<Rightarrow> ostream \<Rightarrow> ostream" where
  "DrawSubscriber_notify RegSub message out = out @ [''[Regular Subscriber] '' @ message]"
| "DrawSubscriber_notify ContrastImageSub message out =
     out @ [''[Contrast Image Subscriber] '' @ message]"

text \<open>
  \<^verbatim>\<open>for (auto& s : subscribers) s->notify(msg);\<close> The same loop is the body of
  \<^verbatim>\<open>notifySubscribers\<close> in \<^verbatim>\<open>Graph\<close>, \<^verbatim>\<open>Figure\<close>, \<^verbatim>\<open>ColoredFigure\<close> and
  \<^verbatim>\<open>BWFigure\<close>.
\<close>

fun notifySubscribers :: "DrawSubscriber list \<Rightarrow> string \<Rightarrow> ostream \<Rightarrow> ostream" where
  "notifySubscribers [] msg out = out"
| "notifySubscribers (s # ss) msg out = notifySubscribers ss msg (DrawSubscriber_notify s msg out)"

section \<open>Diagrams\<close>

text \<open>
  The classes \<^verbatim>\<open>Graph\<close> and \<^verbatim>\<open>Figure\<close> derive from \<^verbatim>\<open>Diagram\<close>; the only field of
  each is the vector \<^verbatim>\<open>subscribers\<close>. A virtual call is a case distinction on the
  constructor. \<^verbatim>\<open>push_back\<close> appends at the end of the vector.
\<close>

datatype Diagram = Graph "DrawSubscriber list" | Figure "DrawSubscriber list"

fun Diagram_subscribers :: "Diagram \<Rightarrow> DrawSubscriber list" where
  "Diagram_subscribers (Graph subscribers) = subscribers"
| "Diagram_subscribers (Figure subscribers) = subscribers"

fun Diagram_calc :: "Diagram \<Rightarrow> ostream \<Rightarrow> ostream" where
  "Diagram_calc (Graph subscribers) out =
     notifySubscribers subscribers ''Graph calculated'' (out @ [''Calculating Graph''])"
| "Diagram_calc (Figure subscribers) out =
     notifySubscribers subscribers ''Figure calculated'' (out @ [''Calculating Figure''])"

fun Diagram_draw :: "Diagram \<Rightarrow> ostream \<Rightarrow> ostream" where
  "Diagram_draw (Graph subscribers) out =
     notifySubscribers subscribers ''Graph drawn''
       (out @ [''[Graph] Drawing graphical representation.''])"
| "Diagram_draw (Figure subscribers) out =
     notifySubscribers subscribers ''Figure drawn''
       (out @ [''[Figure Stub] Drawing textual stub.''])"

fun Diagram_drag :: "Diagram \<Rightarrow> ostream \<Rightarrow> ostream" where
  "Diagram_drag (Graph subscribers) out =
     notifySubscribers subscribers ''Graph dragged'' (out @ [''Dragging Graph''])"
| "Diagram_drag (Figure subscribers) out =
     notifySubscribers subscribers ''Figure dragged'' (out @ [''Dragging Figure''])"

fun Diagram_attachSubscriber :: "Diagram \<Rightarrow> DrawSubscriber \<Rightarrow> Diagram" where
  "Diagram_attachSubscriber (Graph subscribers) sub = Graph (subscribers @ [sub])"
| "Diagram_attachSubscriber (Figure subscribers) sub = Figure (subscribers @ [sub])"

text \<open>Attaching a sequence of subscribers, one call after the other.\<close>

fun attach_all :: "Diagram \<Rightarrow> DrawSubscriber list \<Rightarrow> Diagram" where
  "attach_all d [] = d"
| "attach_all d (sub # subs) = attach_all (Diagram_attachSubscriber d sub) subs"

text \<open>\<^verbatim>\<open>accept\<close> calls the overload of \<^verbatim>\<open>ExportVisitor::visit\<close> for the class.\<close>

fun Diagram_accept :: "Diagram \<Rightarrow> ostream \<Rightarrow> ostream" where
  "Diagram_accept (Graph subscribers) out = out @ [''Exporting Graph as PNG...'']"
| "Diagram_accept (Figure subscribers) out = out @ [''Exporting Figure as JPG...'']"

section \<open>Flyweight figures\<close>

text \<open>
  \<^verbatim>\<open>ColoredFigure\<close> and \<^verbatim>\<open>BWFigure\<close> derive from \<^verbatim>\<open>FlyweightFigure\<close>; an object
  holds the inherited \<^verbatim>\<open>type\<close> and its own vector \<^verbatim>\<open>subscribers\<close>.
\<close>

datatype FlyweightFigure =
    ColoredFigure string "DrawSubscriber list"
  | BWFigure string "DrawSubscriber list"

fun fly_type :: "FlyweightFigure \<Rightarrow> string" where
  "fly_type (ColoredFigure t subscribers) = t"
| "fly_type (BWFigure t subscribers) = t"

fun fly_subscribers :: "FlyweightFigure \<Rightarrow> DrawSubscriber list" where
  "fly_subscribers (ColoredFigure t subscribers) = subscribers"
| "fly_subscribers (BWFigure t subscribers) = subscribers"

fun is_colored :: "FlyweightFigure \<Rightarrow> bool" where
  "is_colored (ColoredFigure t subscribers) = True"
| "is_colored (BWFigure t subscribers) = False"

fun FlyweightFigure_draw :: "FlyweightFigure \<Rightarrow> ostream \<Rightarrow> ostream" where
  "FlyweightFigure_draw (ColoredFigure t subscribers) out =
     notifySubscribers subscribers ''Colored Figure drawn''
       (out @ [''[Colored Flyweight] Drawing colored figure of type: '' @ t])"
| "FlyweightFigure_draw (BWFigure t subscribers) out =
     notifySubscribers subscribers ''B/W Figure drawn''
       (out @ [''[B/W Flyweight] Drawing black and white figure of type: '' @ t])"

fun FlyweightFigure_attachSubscriber :: "FlyweightFigure \<Rightarrow> DrawSubscriber \<Rightarrow> FlyweightFigure" where
  "FlyweightFigure_attachSubscriber (ColoredFigure t subscribers) sub =
     ColoredFigure t (subscribers @ [sub])"
| "FlyweightFigure_attachSubscriber (BWFigure t subscribers) sub =
     BWFigure t (subscribers @ [sub])"

text \<open>
  \<^verbatim>\<open>std::string::find\<close>: the position of the first occurrence of the pattern, and
  \<^verbatim>\<open>npos\<close> (here \<open>None\<close>) when there is none.
\<close>

fun find_from :: "string \<Rightarrow> string \<Rightarrow> nat \<Rightarrow> nat option" where
  "find_from [] pat i = (if pat = [] then Some i else None)"
| "find_from (c # cs) pat i =
     (if prefix pat (c # cs) then Some i else find_from cs pat (Suc i))"

definition string_find :: "string \<Rightarrow> string \<Rightarrow> nat option" where
  "string_find s pat = find_from s pat 0"

section \<open>Commands\<close>

text \<open>
  A \<^verbatim>\<open>CreateGraphCommand\<close> is written once, by its constructor, and never changed.
  Two \<^verbatim>\<open>shared_ptr\<close>s denote the same object iff they hold the same address;
  \<open>cmd_id\<close> is that address, taken from a counter at \<^verbatim>\<open>make_shared\<close>. The field
  \<^verbatim>\<open>factory\<close> always points to the one \<^verbatim>\<open>graphFactory\<close> of the facade, which has
  no field, and is left out.
\<close>

record CreateGraphCommand =
  cmd_id :: nat
  cmd_type :: string
  cmd_coord :: string

section \<open>The state of the program\<close>

text \<open>
  \<^item> \<open>cout\<close>: the lines written so far;
  \<^item> \<open>bar_coord\<close>, \<open>line_coord\<close>: the field \<^verbatim>\<open>coord\<close> of the function-static
    singletons \<^verbatim>\<open>BarBuilder::getInstance()\<close> and \<^verbatim>\<open>LineBuilder::getInstance()\<close>;
  \<^item> \<open>pool\<close>: the map \<^verbatim>\<open>pool\<close> of the \<^verbatim>\<open>FlyweightFactory\<close> inside the singleton
    \<^verbatim>\<open>FigureFactory::getInstance()\<close>, from keys to handles (addresses);
  \<^item> \<open>fly_heap\<close>: the flyweight objects that \<^verbatim>\<open>make_shared\<close> allocated, by address;
    \<open>fly_next\<close> is the next fresh address;
  \<^item> \<open>undoStack\<close>, \<open>redoStack\<close>: the stacks of \<^verbatim>\<open>undoManager\<close> and
    \<^verbatim>\<open>redoManager\<close> of the \<^verbatim>\<open>DiagramFactory\<close>, top first;
  \<^item> \<open>cmd_next\<close>: the next fresh command address.

  The fields \<^verbatim>\<open>regSub\<close> and \<^verbatim>\<open>contrastSub\<close> of the \<^verbatim>\<open>DiagramFactory\<close> are set at
  construction and never assigned: they are the constants \<open>RegSub\<close> and
  \<open>ContrastImageSub\<close>.
\<close>

record system =
  cout :: ostream
  bar_coord :: string
  line_coord :: string
  pool :: "string \<rightharpoonup> nat"
  fly_heap :: "nat \<rightharpoonup> FlyweightFigure"
  fly_next :: nat
  undoStack :: "CreateGraphCommand list"
  redoStack :: "CreateGraphCommand list"
  cmd_next :: nat

definition initial :: system where
  "initial = \<lparr> cout = [], bar_coord = [], line_coord = [], pool = Map.empty,
     fly_heap = Map.empty, fly_next = 0, undoStack = [], redoStack = [], cmd_next = 0 \<rparr>"

section \<open>Flyweight factory\<close>

text \<open>
  \<^verbatim>\<open>FlyweightFactory::getFigure\<close>. When the key is absent, a new object is allocated
  and stored under the key; \<^verbatim>\<open>return pool[type]\<close> then reads the entry, which
  exists on both paths.
\<close>

definition FlyweightFactory_getFigure :: "string \<Rightarrow> system \<Rightarrow> nat \<times> system" where
  "FlyweightFactory_getFigure t s =
     (case pool s t of
        None \<Rightarrow>
          (let h = fly_next s;
               obj = (if string_find t ''Color'' \<noteq> None then ColoredFigure t []
                      else BWFigure t [])
           in (h, s\<lparr> pool := (pool s)(t \<mapsto> h),
                     fly_heap := (fly_heap s)(h \<mapsto> obj),
                     fly_next := Suc h \<rparr>))
      | Some h \<Rightarrow> (h, s))"

text \<open>
  Calls through a handle. A handle returned by \<open>FlyweightFactory_getFigure\<close> is never
  null and its object is never freed (the pool keeps a \<^verbatim>\<open>shared_ptr\<close> to it), so the
  branch \<open>None\<close> is not taken by the program; it leaves the state as it is.
\<close>

definition handle_attachSubscriber :: "nat \<Rightarrow> DrawSubscriber \<Rightarrow> system \<Rightarrow> system" where
  "handle_attachSubscriber h sub s =
     (case fly_heap s h of
        None \<Rightarrow> s
      | Some obj \<Rightarrow> s\<lparr> fly_heap := (fly_heap s)(h \<mapsto> FlyweightFigure_attachSubscriber obj sub) \<rparr>)"

definition handle_draw :: "nat \<Rightarrow> system \<Rightarrow> system" where
  "handle_draw h s =
     (case fly_heap s h of
        None \<Rightarrow> s
      | Some obj \<Rightarrow> s\<lparr> cout := FlyweightFigure_draw obj (cout s) \<rparr>)"

definition FigureFactory_getFigure ::
  "string \<Rightarrow> string \<Rightarrow> DrawSubscriber \<Rightarrow> system \<Rightarrow> nat \<times> system" where
  "FigureFactory_getFigure t coord sub s =
     (case FlyweightFactory_getFigure t s of
        (fig, s1) \<Rightarrow>
          (let s2 = handle_attachSubscriber fig sub s1;
               s3 = s2\<lparr> cout := cout s2 @ [''Coordinates: '' @ coord] \<rparr>;
               s4 = handle_draw fig s3
           in (fig, s4)))"

section \<open>Builders, director, graph factory\<close>

text \<open>A \<^verbatim>\<open>Builder*\<close> points to one of the two singletons.\<close>

datatype Builder = BarBuilder | LineBuilder

definition DrawGraph_draw :: "system \<Rightarrow> system" where
  "DrawGraph_draw s = s\<lparr> cout := cout s @ [''[Graph Proxy] Drawing graphical + textual stub''] \<rparr>"

fun Builder_setCoord :: "Builder \<Rightarrow> string \<Rightarrow> system \<Rightarrow> system" where
  "Builder_setCoord BarBuilder c s = s\<lparr> bar_coord := c \<rparr>"
| "Builder_setCoord LineBuilder c s = s\<lparr> line_coord := c \<rparr>"

fun Builder_calc :: "Builder \<Rightarrow> system \<Rightarrow> system" where
  "Builder_calc BarBuilder s = s\<lparr> cout := cout s @ [''Bar calc at '' @ bar_coord s] \<rparr>"
| "Builder_calc LineBuilder s = s\<lparr> cout := cout s @ [''Line calc at '' @ line_coord s] \<rparr>"

fun Builder_draw :: "Builder \<Rightarrow> system \<Rightarrow> system" where
  "Builder_draw BarBuilder s = DrawGraph_draw s"
| "Builder_draw LineBuilder s = DrawGraph_draw s"

fun Builder_drag :: "Builder \<Rightarrow> system \<Rightarrow> system" where
  "Builder_drag BarBuilder s = s\<lparr> cout := cout s @ [''Drag Bar at '' @ bar_coord s] \<rparr>"
| "Builder_drag LineBuilder s = s\<lparr> cout := cout s @ [''Drag Line at '' @ line_coord s] \<rparr>"

definition Director_construct :: "Builder \<Rightarrow> string \<Rightarrow> string \<Rightarrow> system \<Rightarrow> system" where
  "Director_construct builder t coord s =
     (let s1 = Builder_setCoord builder coord s;
          s2 = Builder_calc builder s1;
          s3 = Builder_draw builder s2
      in Builder_drag builder s3)"

definition GraphFactory_createGraph :: "string \<Rightarrow> string \<Rightarrow> system \<Rightarrow> system" where
  "GraphFactory_createGraph t coord s =
     (if t = ''Bar'' then Director_construct BarBuilder t coord s
      else if t = ''Line'' then Director_construct LineBuilder t coord s
      else s)"

section \<open>Command, undo and redo managers\<close>

definition CreateGraphCommand_execute :: "CreateGraphCommand \<Rightarrow> system \<Rightarrow> system" where
  "CreateGraphCommand_execute cmd s = GraphFactory_createGraph (cmd_type cmd) (cmd_coord cmd) s"

definition CreateGraphCommand_undo :: "CreateGraphCommand \<Rightarrow> system \<Rightarrow> system" where
  "CreateGraphCommand_undo cmd s = s\<lparr> cout := cout s @ [''Undo creation of graph: '' @ cmd_type cmd] \<rparr>"

definition Undo_addCommand :: "CreateGraphCommand \<Rightarrow> system \<Rightarrow> system" where
  "Undo_addCommand cmd s = s\<lparr> undoStack := cmd # undoStack s \<rparr>"

text \<open>\<^verbatim>\<open>popCommand\<close> returns \<^verbatim>\<open>nullptr\<close> (here \<open>None\<close>) on an empty stack.\<close>

definition Undo_popCommand :: "system \<Rightarrow> CreateGraphCommand option \<times> system" where
  "Undo_popCommand s =
     (case undoStack s of
        [] \<Rightarrow> (None, s)
      | cmd # rest \<Rightarrow> (Some cmd, s\<lparr> undoStack := rest \<rparr>))"

definition Redo_addCommand :: "CreateGraphCommand \<Rightarrow> system \<Rightarrow> system" where
  "Redo_addCommand cmd s = s\<lparr> redoStack := cmd # redoStack s \<rparr>"

definition Redo_popCommand :: "system \<Rightarrow> CreateGraphCommand option \<times> system" where
  "Redo_popCommand s =
     (case redoStack s of
        [] \<Rightarrow> (None, s)
      | cmd # rest \<Rightarrow> (Some cmd, s\<lparr> redoStack := rest \<rparr>))"

text \<open>\<^verbatim>\<open>while (!redoStack.empty()) redoStack.pop();\<close>\<close>

fun clear_loop :: "CreateGraphCommand list \<Rightarrow> CreateGraphCommand list" where
  "clear_loop [] = []"
| "clear_loop (cmd # rest) = clear_loop rest"

definition Redo_clear :: "system \<Rightarrow> system" where
  "Redo_clear s = s\<lparr> redoStack := clear_loop (redoStack s) \<rparr>"

section \<open>The facade\<close>

definition DiagramFactory_createGraph :: "string \<Rightarrow> string \<Rightarrow> system \<Rightarrow> system" where
  "DiagramFactory_createGraph t coord s =
     (let cmd = \<lparr> cmd_id = cmd_next s, cmd_type = t, cmd_coord = coord \<rparr>;
          s0 = s\<lparr> cmd_next := Suc (cmd_next s) \<rparr>;
          s1 = CreateGraphCommand_execute cmd s0;
          s2 = Undo_addCommand cmd s1
      in Redo_clear s2)"

definition DiagramFactory_createFigure :: "string \<Rightarrow> string \<Rightarrow> system \<Rightarrow> system" where
  "DiagramFactory_createFigure t coord s =
     (case FigureFactory_getFigure t coord RegSub s of
        (fig, s1) \<Rightarrow> handle_attachSubscriber fig ContrastImageSub s1)"

definition DiagramFactory_getDiagram :: "string \<Rightarrow> string \<Rightarrow> string \<Rightarrow> system \<Rightarrow> system" where
  "DiagramFactory_getDiagram element t coord s =
     (if element = ''Graph'' then DiagramFactory_createGraph t coord s
      else if element = ''Figure'' then DiagramFactory_createFigure t coord s
      else s)"

definition DiagramFactory_undo :: "system \<Rightarrow> system" where
  "DiagramFactory_undo s =
     (case Undo_popCommand s of
        (None, s1) \<Rightarrow> s1
      | (Some cmd, s1) \<Rightarrow> Redo_addCommand cmd (CreateGraphCommand_undo cmd s1))"

definition DiagramFactory_redo :: "system \<Rightarrow> system" where
  "DiagramFactory_redo s =
     (case Redo_popCommand s of
        (None, s1) \<Rightarrow> s1
      | (Some cmd, s1) \<Rightarrow> Undo_addCommand cmd (CreateGraphCommand_execute cmd s1))"

text \<open>A session is a sequence of calls of the three public operations of the facade.\<close>

datatype request = GetDiagram string string string | Undo | Redo

fun step :: "request \<Rightarrow> system \<Rightarrow> system" where
  "step (GetDiagram element t coord) s = DiagramFactory_getDiagram element t coord s"
| "step Undo s = DiagramFactory_undo s"
| "step Redo s = DiagramFactory_redo s"

fun run :: "request list \<Rightarrow> system \<Rightarrow> system" where
  "run [] s = s"
| "run (r # rs) s = run rs (step r s)"

text \<open>
  \<^verbatim>\<open>main\<close>: six calls of the facade, then the export of a fresh \<^verbatim>\<open>Graph\<close> and of a
  fresh \<^verbatim>\<open>Figure\<close>. Its value is what the program has written when it returns.
\<close>

definition main_cout :: ostream where
  "main_cout =
     (let s = run [GetDiagram ''Graph'' ''Line'' ''(10,20)'', GetDiagram ''Graph'' ''Bar'' ''(15,30)'',
                   GetDiagram ''Figure'' ''CircleColor'' ''(5,5)'',
                   GetDiagram ''Figure'' ''SquareBW'' ''(2,3)'', Undo, Redo] initial
      in Diagram_accept (Figure []) (Diagram_accept (Graph []) (cout s)))"

section \<open>Notions used to state the properties\<close>

text \<open>The lines that one call of \<^verbatim>\<open>notify\<close> writes.\<close>

definition notification :: "DrawSubscriber \<Rightarrow> string \<Rightarrow> ostream" where
  "notification sub msg = DrawSubscriber_notify sub msg []"

text \<open>The object cached under a key, and its subscriber vector (empty when there is none).\<close>

definition figure_of :: "system \<Rightarrow> string \<Rightarrow> FlyweightFigure option" where
  "figure_of s key = (case pool s key of None \<Rightarrow> None | Some h \<Rightarrow> fly_heap s h)"

definition subscribers_of :: "system \<Rightarrow> string \<Rightarrow> DrawSubscriber list" where
  "subscribers_of s key = (case figure_of s key of None \<Rightarrow> [] | Some obj \<Rightarrow> fly_subscribers obj)"

text \<open>
  The representation invariant of the flyweight store: every handle in the pool is an
  allocated address, and the object there was built for its key, so it carries the key
  as its \<^verbatim>\<open>type\<close> and is a \<^verbatim>\<open>ColoredFigure\<close> exactly when the key contains
  \<^verbatim>\<open>"Color"\<close> (\<open>sublist\<close> is the contiguous-sublist relation of the library).
\<close>

definition pool_inv :: "system \<Rightarrow> bool" where
  "pool_inv s \<longleftrightarrow>
     (\<forall>key h. pool s key = Some h \<longrightarrow>
        h < fly_next s \<and>
        (\<exists>obj. fly_heap s h = Some obj \<and> fly_type obj = key \<and>
               is_colored obj = sublist ''Color'' key))"

text \<open>
  The object that the substring rule prescribes for a key, with the given subscribers.
\<close>

definition cached_figure :: "string \<Rightarrow> DrawSubscriber list \<Rightarrow> FlyweightFigure" where
  "cached_figure key subs =
     (if sublist ''Color'' key then ColoredFigure key subs else BWFigure key subs)"

text \<open>How many requests of a session ask for the figure with the given key.\<close>

fun figure_calls :: "string \<Rightarrow> request list \<Rightarrow> nat" where
  "figure_calls key [] = 0"
| "figure_calls key (GetDiagram element t coord # rs) =
     (if element = ''Figure'' \<and> t = key then Suc (figure_calls key rs) else figure_calls key rs)"
| "figure_calls key (Undo # rs) = figure_calls key rs"
| "figure_calls key (Redo # rs) = figure_calls key rs"

section \<open>The history stacks\<close>

lemma clear_loop_Nil: "clear_loop xs = []"
  by (induction xs) simp_all

lemma Director_construct_Bar:
  "Director_construct BarBuilder t coord s =
     s\<lparr> cout := cout s @ [''Bar calc at '' @ coord,
                           ''[Graph Proxy] Drawing graphical + textual stub'',
                           ''Drag Bar at '' @ coord],
        bar_coord := coord \<rparr>"
  by (simp add: Director_construct_def DrawGraph_draw_def)

lemma Director_construct_Line:
  "Director_construct LineBuilder t coord s =
     s\<lparr> cout := cout s @ [''Line calc at '' @ coord,
                           ''[Graph Proxy] Drawing graphical + textual stub'',
                           ''Drag Line at '' @ coord],
        line_coord := coord \<rparr>"
  by (simp add: Director_construct_def DrawGraph_draw_def)

lemma GraphFactory_createGraph_history:
  "undoStack (GraphFactory_createGraph t coord s) = undoStack s"
  "redoStack (GraphFactory_createGraph t coord s) = redoStack s"
  "cmd_next (GraphFactory_createGraph t coord s) = cmd_next s"
  by (simp_all add: GraphFactory_createGraph_def Director_construct_Bar Director_construct_Line)

lemma GraphFactory_createGraph_figures:
  "pool (GraphFactory_createGraph t coord s) = pool s"
  "fly_heap (GraphFactory_createGraph t coord s) = fly_heap s"
  "fly_next (GraphFactory_createGraph t coord s) = fly_next s"
  by (simp_all add: GraphFactory_createGraph_def Director_construct_Bar Director_construct_Line)

lemma GraphFactory_createGraph_unknown:
  "t \<noteq> ''Bar'' \<Longrightarrow> t \<noteq> ''Line'' \<Longrightarrow> GraphFactory_createGraph t coord s = s"
  by (simp add: GraphFactory_createGraph_def)

lemma createGraph_undoStack:
  "undoStack (DiagramFactory_createGraph t coord s) =
     \<lparr> cmd_id = cmd_next s, cmd_type = t, cmd_coord = coord \<rparr> # undoStack s"
  by (simp add: DiagramFactory_createGraph_def Let_def Redo_clear_def Undo_addCommand_def
      CreateGraphCommand_execute_def GraphFactory_createGraph_history)

lemma createGraph_redoStack: "redoStack (DiagramFactory_createGraph t coord s) = []"
  by (simp add: DiagramFactory_createGraph_def Let_def Redo_clear_def clear_loop_Nil)

lemma undo_empty: "undoStack s = [] \<Longrightarrow> DiagramFactory_undo s = s"
  by (simp add: DiagramFactory_undo_def Undo_popCommand_def)

lemma redo_empty: "redoStack s = [] \<Longrightarrow> DiagramFactory_redo s = s"
  by (simp add: DiagramFactory_redo_def Redo_popCommand_def)

lemma undo_Cons:
  "undoStack s = cmd # rest \<Longrightarrow>
   DiagramFactory_undo s =
     s\<lparr> cout := cout s @ [''Undo creation of graph: '' @ cmd_type cmd],
        undoStack := rest, redoStack := cmd # redoStack s \<rparr>"
  by (simp add: DiagramFactory_undo_def Undo_popCommand_def Redo_addCommand_def
      CreateGraphCommand_undo_def)

lemma redo_Cons_stacks:
  assumes "redoStack s = cmd # rest"
  shows "undoStack (DiagramFactory_redo s) = cmd # undoStack s"
    and "redoStack (DiagramFactory_redo s) = rest"
  using assms
  by (simp_all add: DiagramFactory_redo_def Redo_popCommand_def Undo_addCommand_def
      CreateGraphCommand_execute_def GraphFactory_createGraph_history)

section \<open>Notification\<close>

lemma DrawSubscriber_notify_append:
  "DrawSubscriber_notify sub msg out = out @ notification sub msg"
  by (cases sub) (simp_all add: notification_def)

lemma notifySubscribers_append:
  "notifySubscribers subs msg out = out @ concat (map (\<lambda>sub. notification sub msg) subs)"
proof (induction subs arbitrary: out)
  case Nil
  show ?case by simp
next
  case (Cons sub subs)
  show ?case
    by (simp add: Cons.IH DrawSubscriber_notify_append)
qed

lemma length_notification: "length (notification sub msg) = 1"
  by (cases sub) (simp_all add: notification_def)

lemma attach_all_subscribers:
  "Diagram_subscribers (attach_all d subs) = Diagram_subscribers d @ subs"
proof (induction subs arbitrary: d)
  case Nil
  show ?case by simp
next
  case (Cons sub subs)
  show ?case by (cases d) (simp_all add: Cons.IH)
qed

section \<open>The flyweight store\<close>

lemma find_from_None: "find_from s pat i = None \<longleftrightarrow> \<not> sublist pat s"
  by (induction s arbitrary: i) (simp_all add: sublist_Cons_right)

lemma string_find_sublist: "string_find s pat \<noteq> None \<longleftrightarrow> sublist pat s"
  by (simp add: string_find_def find_from_None)

lemma attach_fly_type: "fly_type (FlyweightFigure_attachSubscriber obj sub) = fly_type obj"
  by (cases obj) simp_all

lemma attach_is_colored: "is_colored (FlyweightFigure_attachSubscriber obj sub) = is_colored obj"
  by (cases obj) simp_all

lemma attach_fly_subscribers:
  "fly_subscribers (FlyweightFigure_attachSubscriber obj sub) = fly_subscribers obj @ [sub]"
  by (cases obj) simp_all

lemma getFigure_seen: "pool s key = Some h \<Longrightarrow> FlyweightFactory_getFigure key s = (h, s)"
  by (simp add: FlyweightFactory_getFigure_def)

lemma getFigure_unseen:
  "pool s key = None \<Longrightarrow>
   FlyweightFactory_getFigure key s =
     (fly_next s,
      s\<lparr> pool := (pool s)(key \<mapsto> fly_next s),
         fly_heap := (fly_heap s)(fly_next s \<mapsto>
            (if sublist ''Color'' key then ColoredFigure key [] else BWFigure key [])),
         fly_next := Suc (fly_next s) \<rparr>)"
  by (simp add: FlyweightFactory_getFigure_def Let_def string_find_sublist del: not_None_eq)

lemma getFigure_pool:
  "FlyweightFactory_getFigure key s = (h, s1) \<Longrightarrow> pool s1 key = Some h"
  by (cases "pool s key") (auto simp: FlyweightFactory_getFigure_def Let_def)

lemma pool_inv_getFigure:
  assumes "pool_inv s" and "FlyweightFactory_getFigure key s = (h, s1)"
  shows "pool_inv s1"
proof (cases "pool s key")
  case None
  have s1: "s1 = s\<lparr> pool := (pool s)(key \<mapsto> fly_next s),
         fly_heap := (fly_heap s)(fly_next s \<mapsto>
            (if sublist ''Color'' key then ColoredFigure key [] else BWFigure key [])),
         fly_next := Suc (fly_next s) \<rparr>"
    using assms(2) unfolding getFigure_unseen [OF None] by (auto split del: if_split)
  show ?thesis
    unfolding pool_inv_def
  proof (intro allI impI)
    fix k a
    assume ka: "pool s1 k = Some a"
    show "a < fly_next s1 \<and>
        (\<exists>obj. fly_heap s1 a = Some obj \<and> fly_type obj = k \<and>
               is_colored obj = sublist ''Color'' k)"
    proof (cases "k = key")
      case True
      with ka s1 show ?thesis by simp
    next
      case False
      with ka s1 have "pool s k = Some a" by simp
      with assms(1) have "a < fly_next s"
        and "\<exists>obj. fly_heap s a = Some obj \<and> fly_type obj = k \<and>
               is_colored obj = sublist ''Color'' k"
        by (auto simp: pool_inv_def)
      with s1 show ?thesis by auto
    qed
  qed
next
  case (Some a)
  with assms show ?thesis by (simp add: getFigure_seen)
qed

lemma pool_inv_attach:
  assumes "pool_inv s"
  shows "pool_inv (handle_attachSubscriber h sub s)"
proof (cases "fly_heap s h")
  case None
  with assms show ?thesis by (simp add: handle_attachSubscriber_def)
next
  case (Some obj)
  then have s1: "handle_attachSubscriber h sub s =
      s\<lparr> fly_heap := (fly_heap s)(h \<mapsto> FlyweightFigure_attachSubscriber obj sub) \<rparr>"
    by (simp add: handle_attachSubscriber_def)
  show ?thesis
    unfolding pool_inv_def s1
  proof (intro allI impI)
    fix k a
    assume "pool (s\<lparr> fly_heap := (fly_heap s)(h \<mapsto> FlyweightFigure_attachSubscriber obj sub) \<rparr>) k = Some a"
    then have "pool s k = Some a" by simp
    with assms have a: "a < fly_next s"
      and "\<exists>obj. fly_heap s a = Some obj \<and> fly_type obj = k \<and>
               is_colored obj = sublist ''Color'' k"
      by (auto simp: pool_inv_def)
    then obtain o' where o': "fly_heap s a = Some o'" "fly_type o' = k"
      "is_colored o' = sublist ''Color'' k" by blast
    show "a < fly_next (s\<lparr> fly_heap := (fly_heap s)(h \<mapsto> FlyweightFigure_attachSubscriber obj sub) \<rparr>) \<and>
        (\<exists>ob. fly_heap (s\<lparr> fly_heap := (fly_heap s)(h \<mapsto> FlyweightFigure_attachSubscriber obj sub) \<rparr>) a = Some ob \<and> fly_type ob = k \<and>
               is_colored ob = sublist ''Color'' k)"
    proof (cases "a = h")
      case True
      with o' Some a show ?thesis by (simp add: attach_fly_type attach_is_colored)
    next
      case False
      with o' a show ?thesis by simp
    qed
  qed
qed

lemma pool_inv_cong:
  "pool s' = pool s \<Longrightarrow> fly_heap s' = fly_heap s \<Longrightarrow> fly_next s' = fly_next s \<Longrightarrow>
   pool_inv s' = pool_inv s"
  by (simp add: pool_inv_def)

lemma handle_draw_figures:
  "pool (handle_draw h s) = pool s"
  "fly_heap (handle_draw h s) = fly_heap s"
  "fly_next (handle_draw h s) = fly_next s"
  by (simp_all add: handle_draw_def split: option.splits)

lemma handle_draw_history:
  "undoStack (handle_draw h s) = undoStack s"
  "redoStack (handle_draw h s) = redoStack s"
  "cmd_next (handle_draw h s) = cmd_next s"
  "bar_coord (handle_draw h s) = bar_coord s"
  "line_coord (handle_draw h s) = line_coord s"
  by (simp_all add: handle_draw_def split: option.splits)

lemma handle_attach_history:
  "undoStack (handle_attachSubscriber h sub s) = undoStack s"
  "redoStack (handle_attachSubscriber h sub s) = redoStack s"
  "cmd_next (handle_attachSubscriber h sub s) = cmd_next s"
  "bar_coord (handle_attachSubscriber h sub s) = bar_coord s"
  "line_coord (handle_attachSubscriber h sub s) = line_coord s"
  "cout (handle_attachSubscriber h sub s) = cout s"
  "pool (handle_attachSubscriber h sub s) = pool s"
  "fly_next (handle_attachSubscriber h sub s) = fly_next s"
  by (simp_all add: handle_attachSubscriber_def split: option.splits)

lemma getFigure_history:
  assumes "FlyweightFactory_getFigure key s = (h, s1)"
  shows "undoStack s1 = undoStack s" "redoStack s1 = redoStack s" "cmd_next s1 = cmd_next s"
    "bar_coord s1 = bar_coord s" "line_coord s1 = line_coord s" "cout s1 = cout s"
  using assms by (cases "pool s key"; auto simp: FlyweightFactory_getFigure_def Let_def)+

text \<open>\<^verbatim>\<open>createFigure\<close> with \<^verbatim>\<open>FigureFactory::getFigure\<close> inlined, step by step.\<close>

lemma createFigure_steps:
  assumes "FlyweightFactory_getFigure key s = (h, s1)"
  shows "DiagramFactory_createFigure key coord s =
     handle_attachSubscriber h ContrastImageSub
       (handle_draw h
          ((handle_attachSubscriber h RegSub s1)
             \<lparr> cout := cout s1 @ [''Coordinates: '' @ coord] \<rparr>))"
  using assms
  by (simp add: DiagramFactory_createFigure_def FigureFactory_getFigure_def Let_def
      handle_attach_history)

lemma createFigure_history:
  "undoStack (DiagramFactory_createFigure key coord s) = undoStack s"
  "redoStack (DiagramFactory_createFigure key coord s) = redoStack s"
  "cmd_next (DiagramFactory_createFigure key coord s) = cmd_next s"
  "bar_coord (DiagramFactory_createFigure key coord s) = bar_coord s"
  "line_coord (DiagramFactory_createFigure key coord s) = line_coord s"
proof -
  obtain h s1 where g: "FlyweightFactory_getFigure key s = (h, s1)"
    by (cases "FlyweightFactory_getFigure key s")
  show "undoStack (DiagramFactory_createFigure key coord s) = undoStack s"
  "redoStack (DiagramFactory_createFigure key coord s) = redoStack s"
  "cmd_next (DiagramFactory_createFigure key coord s) = cmd_next s"
  "bar_coord (DiagramFactory_createFigure key coord s) = bar_coord s"
  "line_coord (DiagramFactory_createFigure key coord s) = line_coord s"
    by (simp_all add: createFigure_steps [OF g] handle_attach_history handle_draw_history
        getFigure_history [OF g])
qed

lemma pool_inv_createFigure:
  assumes "pool_inv s"
  shows "pool_inv (DiagramFactory_createFigure key coord s)"
proof -
  obtain h s1 where g: "FlyweightFactory_getFigure key s = (h, s1)"
    by (cases "FlyweightFactory_getFigure key s")
  have 1: "pool_inv s1" using assms g by (rule pool_inv_getFigure)
  have 2: "pool_inv (handle_attachSubscriber h RegSub s1)" using 1 by (rule pool_inv_attach)
  have 3: "pool_inv ((handle_attachSubscriber h RegSub s1)
             \<lparr> cout := cout s1 @ [''Coordinates: '' @ coord] \<rparr>)"
    using 2 by (simp add: pool_inv_def)
  have 4: "pool_inv (handle_draw h ((handle_attachSubscriber h RegSub s1)
             \<lparr> cout := cout s1 @ [''Coordinates: '' @ coord] \<rparr>))"
    using 3 by (simp add: pool_inv_cong [OF handle_draw_figures])
  show ?thesis
    unfolding createFigure_steps [OF g] using 4 by (rule pool_inv_attach)
qed

lemma pool_inv_initial: "pool_inv initial"
  by (simp add: pool_inv_def initial_def)

lemma createGraph_figures:
  "pool (DiagramFactory_createGraph t coord s) = pool s"
  "fly_heap (DiagramFactory_createGraph t coord s) = fly_heap s"
  "fly_next (DiagramFactory_createGraph t coord s) = fly_next s"
  by (simp_all add: DiagramFactory_createGraph_def Let_def Redo_clear_def Undo_addCommand_def
      CreateGraphCommand_execute_def GraphFactory_createGraph_figures)

lemma undo_figures:
  "pool (DiagramFactory_undo s) = pool s"
  "fly_heap (DiagramFactory_undo s) = fly_heap s"
  "fly_next (DiagramFactory_undo s) = fly_next s"
  by (cases "undoStack s"; simp add: undo_empty undo_Cons)+

lemma redo_figures:
  "pool (DiagramFactory_redo s) = pool s"
  "fly_heap (DiagramFactory_redo s) = fly_heap s"
  "fly_next (DiagramFactory_redo s) = fly_next s"
  by (cases "redoStack s";
      simp add: DiagramFactory_redo_def Redo_popCommand_def Undo_addCommand_def
        CreateGraphCommand_execute_def GraphFactory_createGraph_figures)+

lemma pool_inv_step: "pool_inv s \<Longrightarrow> pool_inv (step r s)"
proof (cases r)
  case (GetDiagram element t coord)
  assume "pool_inv s"
  then show ?thesis
    by (simp add: GetDiagram DiagramFactory_getDiagram_def pool_inv_createFigure
        pool_inv_cong [OF createGraph_figures])
next
  case Undo
  assume "pool_inv s"
  then show ?thesis by (simp add: Undo pool_inv_cong [OF undo_figures])
next
  case Redo
  assume "pool_inv s"
  then show ?thesis by (simp add: Redo pool_inv_cong [OF redo_figures])
qed

lemma pool_inv_run: "pool_inv s \<Longrightarrow> pool_inv (run rs s)"
  by (induction rs arbitrary: s) (simp_all add: pool_inv_step)

lemma getFigure_obj:
  assumes "pool_inv s" and "FlyweightFactory_getFigure key s = (h, s1)"
  shows "\<exists>obj. fly_heap s1 h = Some obj \<and> fly_type obj = key \<and>
           is_colored obj = sublist ''Color'' key \<and> fly_subscribers obj = subscribers_of s key"
proof (cases "pool s key")
  case None
  then have "subscribers_of s key = []"
    by (simp add: subscribers_of_def figure_of_def)
  with assms(2) show ?thesis
    unfolding getFigure_unseen [OF None] by auto
next
  case (Some a)
  with assms(2) have eq: "h = a" "s1 = s" by (simp_all add: getFigure_seen)
  from assms(1) Some obtain obj where "fly_heap s a = Some obj" "fly_type obj = key"
    "is_colored obj = sublist ''Color'' key"
    by (auto simp: pool_inv_def)
  with Some eq show ?thesis by (simp add: subscribers_of_def figure_of_def)
qed

lemma getFigure_other:
  assumes "pool_inv s" and "FlyweightFactory_getFigure key s = (h, s1)" and "k \<noteq> key"
  shows "pool s1 k = pool s k"
    and "pool s k = Some a \<Longrightarrow> a \<noteq> h \<and> fly_heap s1 a = fly_heap s a"
proof -
  show "pool s1 k = pool s k"
    using assms(2,3) by (cases "pool s key") (auto simp: FlyweightFactory_getFigure_def Let_def)
  assume ka: "pool s k = Some a"
  with assms(1) obtain obj where a: "a < fly_next s" "fly_heap s a = Some obj" "fly_type obj = k"
    by (auto simp: pool_inv_def)
  show "a \<noteq> h \<and> fly_heap s1 a = fly_heap s a"
  proof (cases "pool s key")
    case None
    with assms(2) a show ?thesis
      unfolding getFigure_unseen [OF None] by auto
  next
    case (Some b)
    with assms(2) have eq: "h = b" "s1 = s" by (simp_all add: getFigure_seen)
    from assms(1) Some obtain ob where "fly_heap s b = Some ob" "fly_type ob = key"
      by (auto simp: pool_inv_def)
    with a assms(3) have "a \<noteq> b" by auto
    with eq show ?thesis by simp
  qed
qed

lemma createFigure_figures:
  assumes "FlyweightFactory_getFigure key s = (h, s1)" and "fly_heap s1 h = Some obj"
  shows "pool (DiagramFactory_createFigure key coord s) = pool s1"
    and "fly_next (DiagramFactory_createFigure key coord s) = fly_next s1"
    and "fly_heap (DiagramFactory_createFigure key coord s) =
      (fly_heap s1)(h \<mapsto> FlyweightFigure_attachSubscriber
          (FlyweightFigure_attachSubscriber obj RegSub) ContrastImageSub)"
    and "cout (DiagramFactory_createFigure key coord s) =
      FlyweightFigure_draw (FlyweightFigure_attachSubscriber obj RegSub)
        (cout s @ [''Coordinates: '' @ coord])"
  using assms(2) getFigure_history(6) [OF assms(1)]
  by (simp_all add: createFigure_steps [OF assms(1)] handle_attachSubscriber_def handle_draw_def)

lemma createFigure_subscribers_same:
  assumes "pool_inv s"
  shows "subscribers_of (DiagramFactory_createFigure key coord s) key =
     subscribers_of s key @ [RegSub, ContrastImageSub]"
proof -
  obtain h s1 where g: "FlyweightFactory_getFigure key s = (h, s1)"
    by (cases "FlyweightFactory_getFigure key s")
  from getFigure_obj [OF assms g] obtain obj where
    obj: "fly_heap s1 h = Some obj" "fly_subscribers obj = subscribers_of s key"
    by blast
  show ?thesis
    by (simp add: subscribers_of_def [of "DiagramFactory_createFigure key coord s"] figure_of_def
        createFigure_figures [OF g obj(1)] getFigure_pool [OF g] attach_fly_subscribers obj(2))
qed

lemma createFigure_figure_other:
  assumes "pool_inv s" and "k \<noteq> key"
  shows "figure_of (DiagramFactory_createFigure key coord s) k = figure_of s k"
proof -
  obtain h s1 where g: "FlyweightFactory_getFigure key s = (h, s1)"
    by (cases "FlyweightFactory_getFigure key s")
  from getFigure_obj [OF assms(1) g] obtain obj where obj: "fly_heap s1 h = Some obj"
    by blast
  note other = getFigure_other [OF assms(1) g assms(2)]
  show ?thesis
  proof (cases "pool s k")
    case None
    then show ?thesis
      by (simp add: figure_of_def createFigure_figures [OF g obj] other(1))
  next
    case (Some a)
    with other(2) [OF Some] show ?thesis
      by (simp add: figure_of_def createFigure_figures [OF g obj] other(1))
  qed
qed

lemma figure_of_cong:
  "pool s' = pool s \<Longrightarrow> fly_heap s' = fly_heap s \<Longrightarrow> figure_of s' k = figure_of s k"
  by (simp add: figure_of_def split: option.splits)

lemma step_subscribers:
  assumes "pool_inv s"
  shows "subscribers_of (step r s) key =
     subscribers_of s key @ concat (replicate (figure_calls key [r]) [RegSub, ContrastImageSub])"
proof (cases r)
  case (GetDiagram element t coord)
  show ?thesis
  proof (cases "element = ''Figure''")
    case True
    show ?thesis
    proof (cases "t = key")
      case True
      with \<open>element = ''Figure''\<close> assms show ?thesis
        by (simp add: GetDiagram DiagramFactory_getDiagram_def createFigure_subscribers_same)
    next
      case False
      then have "key \<noteq> t" by simp
      from createFigure_figure_other [OF assms this] False \<open>element = ''Figure''\<close>
      show ?thesis
        by (simp add: GetDiagram DiagramFactory_getDiagram_def subscribers_of_def)
    qed
  next
    case False
    then show ?thesis
      by (simp add: GetDiagram DiagramFactory_getDiagram_def subscribers_of_def
          figure_of_cong [OF createGraph_figures(1,2)])
  qed
next
  case Undo
  then show ?thesis by (simp add: subscribers_of_def figure_of_cong [OF undo_figures(1,2)])
next
  case Redo
  then show ?thesis by (simp add: subscribers_of_def figure_of_cong [OF redo_figures(1,2)])
qed

lemma run_subscribers:
  assumes "pool_inv s"
  shows "subscribers_of (run rs s) key =
     subscribers_of s key @ concat (replicate (figure_calls key rs) [RegSub, ContrastImageSub])"
  using assms
proof (induction rs arbitrary: s)
  case Nil
  show ?case by simp
next
  case (Cons r rs)
  have inv: "pool_inv (step r s)" using Cons.prems by (rule pool_inv_step)
  have calls: "figure_calls key [r] + figure_calls key rs = figure_calls key (r # rs)"
    by (cases r) simp_all
  have "subscribers_of (run (r # rs) s) key =
      subscribers_of (step r s) key @
        concat (replicate (figure_calls key rs) [RegSub, ContrastImageSub])"
    using Cons.IH [OF inv] by simp
  also have "\<dots> = subscribers_of s key @
        concat (replicate (figure_calls key [r]) [RegSub, ContrastImageSub]) @
        concat (replicate (figure_calls key rs) [RegSub, ContrastImageSub])"
    by (simp add: step_subscribers [OF Cons.prems])
  finally show ?case
    by (simp add: calls [symmetric] replicate_add del: figure_calls.simps)
qed

lemma pool_step_mono: "pool s key = Some h \<Longrightarrow> pool (step r s) key = Some h"
proof (cases r)
  case (GetDiagram element t coord)
  assume kh: "pool s key = Some h"
  obtain a s1 where g: "FlyweightFactory_getFigure t s = (a, s1)"
    by (cases "FlyweightFactory_getFigure t s")
  have "pool s1 key = Some h"
    using g kh by (cases "pool s t") (auto simp: FlyweightFactory_getFigure_def Let_def)
  then have "pool (DiagramFactory_createFigure t coord s) key = Some h"
    by (simp add: createFigure_steps [OF g] handle_attach_history handle_draw_figures)
  with kh show ?thesis
    by (simp add: GetDiagram DiagramFactory_getDiagram_def createGraph_figures)
next
  case Undo
  assume "pool s key = Some h"
  then show ?thesis by (simp add: Undo undo_figures)
next
  case Redo
  assume "pool s key = Some h"
  then show ?thesis by (simp add: Redo redo_figures)
qed

lemma pool_run_mono: "pool s key = Some h \<Longrightarrow> pool (run rs s) key = Some h"
  by (induction rs arbitrary: s) (simp_all add: pool_step_mono)

lemma step_history_length:
  "r \<noteq> Undo \<Longrightarrow> length (redoStack (step r s)) \<le> length (redoStack s)"
proof (cases r)
  case (GetDiagram element t coord)
  then show ?thesis
    by (simp add: DiagramFactory_getDiagram_def createGraph_redoStack createFigure_history)
next
  case Undo
  assume "r \<noteq> Undo"
  with Undo show ?thesis by simp
next
  case Redo
  then show ?thesis
    by (cases "redoStack s") (simp_all add: redo_empty redo_Cons_stacks)
qed

lemma cached_figure_eq:
  "fly_type obj = key \<Longrightarrow> is_colored obj = sublist ''Color'' key \<Longrightarrow>
   obj = cached_figure key (fly_subscribers obj)"
  by (cases obj) (auto simp: cached_figure_def)

lemma length_notifications:
  "length (concat (map (\<lambda>sub. notification sub msg) subs)) = length subs"
  by (induction subs) (simp_all add: length_notification)

lemma length_FlyweightFigure_draw:
  "length (FlyweightFigure_draw obj out) = length out + 1 + length (fly_subscribers obj)"
  by (cases obj) (simp_all add: notifySubscribers_append length_notifications)

lemma createFigure_cout:
  assumes "pool_inv s"
  shows "cout (DiagramFactory_createFigure key coord s) =
     FlyweightFigure_draw (cached_figure key (subscribers_of s key @ [RegSub]))
       (cout s @ [''Coordinates: '' @ coord])"
proof -
  obtain h s1 where g: "FlyweightFactory_getFigure key s = (h, s1)"
    by (cases "FlyweightFactory_getFigure key s")
  from getFigure_obj [OF assms g] obtain obj where
    obj: "fly_heap s1 h = Some obj" "fly_type obj = key"
      "is_colored obj = sublist ''Color'' key" "fly_subscribers obj = subscribers_of s key"
    by blast
  have "FlyweightFigure_attachSubscriber obj RegSub =
      cached_figure key (subscribers_of s key @ [RegSub])"
    using cached_figure_eq [of "FlyweightFigure_attachSubscriber obj RegSub" key] obj
    by (simp add: attach_fly_type attach_is_colored attach_fly_subscribers)
  then show ?thesis
    by (simp add: createFigure_figures(4) [OF g obj(1)])
qed

lemma handle_draw_cout:
  assumes "pool_inv s" and "pool s key = Some h"
  shows "cout (handle_draw h s) =
     FlyweightFigure_draw (cached_figure key (subscribers_of s key)) (cout s)"
proof -
  from assms obtain obj where
    obj: "fly_heap s h = Some obj" "fly_type obj = key" "is_colored obj = sublist ''Color'' key"
    by (auto simp: pool_inv_def)
  have "subscribers_of s key = fly_subscribers obj"
    using assms(2) obj(1) by (simp add: subscribers_of_def figure_of_def)
  with cached_figure_eq [OF obj(2,3)] have "obj = cached_figure key (subscribers_of s key)"
    by simp
  with obj(1) show ?thesis by (simp add: handle_draw_def)
qed

lemma fly_subscribers_cached: "fly_subscribers (cached_figure key subs) = subs"
  by (simp add: cached_figure_def)

text \<open>The equations that evaluate a session on a concrete state.\<close>

lemmas exec_defs =
  initial_def DiagramFactory_getDiagram_def DiagramFactory_createGraph_def
  DiagramFactory_createFigure_def DiagramFactory_undo_def DiagramFactory_redo_def
  Undo_popCommand_def Redo_popCommand_def Undo_addCommand_def Redo_addCommand_def
  Redo_clear_def CreateGraphCommand_execute_def CreateGraphCommand_undo_def
  GraphFactory_createGraph_def Director_construct_def DrawGraph_draw_def
  FigureFactory_getFigure_def FlyweightFactory_getFigure_def handle_attachSubscriber_def
  handle_draw_def string_find_def Let_def

section \<open>Properties of the history\<close>

text \<open>
  Claim C1. From every state, a new command issued through
  \<^verbatim>\<open>getDiagram("Graph", style, coord)\<close> leaves the redo stack empty. In the sequence
  execute A, execute B, undo, execute C the undo moves B to the redo stack, the
  execution of C empties it, and a \<^verbatim>\<open>redo()\<close> after that changes nothing at all: B is
  not executed again.
\<close>

theorem execute_clears_redo_history:
  "redoStack (DiagramFactory_getDiagram ''Graph'' style coord s) = [] \<and>
   redoStack (run [GetDiagram ''Graph'' tA cA, GetDiagram ''Graph'' tB cB, Undo] s) =
     [\<lparr> cmd_id = Suc (cmd_next s), cmd_type = tB, cmd_coord = cB \<rparr>] \<and>
   redoStack (run [GetDiagram ''Graph'' tA cA, GetDiagram ''Graph'' tB cB, Undo,
                   GetDiagram ''Graph'' tC cC] s) = [] \<and>
   run [GetDiagram ''Graph'' tA cA, GetDiagram ''Graph'' tB cB, Undo,
        GetDiagram ''Graph'' tC cC, Redo] s =
   run [GetDiagram ''Graph'' tA cA, GetDiagram ''Graph'' tB cB, Undo,
        GetDiagram ''Graph'' tC cC] s"
proof (intro conjI)
  let ?A = "DiagramFactory_createGraph tA cA s"
  let ?B = "DiagramFactory_createGraph tB cB ?A"
  show "redoStack (DiagramFactory_getDiagram ''Graph'' style coord s) = []"
    by (simp add: DiagramFactory_getDiagram_def createGraph_redoStack)
  have next_A: "cmd_next ?A = Suc (cmd_next s)"
    by (simp add: DiagramFactory_createGraph_def Let_def Redo_clear_def Undo_addCommand_def
        CreateGraphCommand_execute_def GraphFactory_createGraph_history)
  show "redoStack (run [GetDiagram ''Graph'' tA cA, GetDiagram ''Graph'' tB cB, Undo] s) =
     [\<lparr> cmd_id = Suc (cmd_next s), cmd_type = tB, cmd_coord = cB \<rparr>]"
    by (simp add: DiagramFactory_getDiagram_def undo_Cons [OF createGraph_undoStack]
        createGraph_redoStack next_A)
  show "redoStack (run [GetDiagram ''Graph'' tA cA, GetDiagram ''Graph'' tB cB, Undo,
                   GetDiagram ''Graph'' tC cC] s) = []"
    by (simp add: DiagramFactory_getDiagram_def createGraph_redoStack)
  show "run [GetDiagram ''Graph'' tA cA, GetDiagram ''Graph'' tB cB, Undo,
        GetDiagram ''Graph'' tC cC, Redo] s =
      run [GetDiagram ''Graph'' tA cA, GetDiagram ''Graph'' tB cB, Undo,
        GetDiagram ''Graph'' tC cC] s"
    by (simp add: DiagramFactory_getDiagram_def redo_empty [OF createGraph_redoStack])
qed

text \<open>
  Claim C3. From every state, executing a command A and then calling \<^verbatim>\<open>undo()\<close>
  and \<^verbatim>\<open>redo()\<close> gives back the undo stack as it was right after the execution of A:
  the same list of commands, so the same size and the same command object (same
  address \<open>cmd_id\<close>) on top.
\<close>

theorem execute_undo_redo_roundtrip:
  "undoStack (run [GetDiagram ''Graph'' t coord, Undo, Redo] s) =
     undoStack (run [GetDiagram ''Graph'' t coord] s) \<and>
   undoStack (run [GetDiagram ''Graph'' t coord] s) =
     \<lparr> cmd_id = cmd_next s, cmd_type = t, cmd_coord = coord \<rparr> # undoStack s"
  by (simp add: DiagramFactory_getDiagram_def undo_Cons [OF createGraph_undoStack]
      redo_Cons_stacks createGraph_redoStack createGraph_undoStack)

text \<open>
  Claim C4, as the code has it. The undo stack grows by one on every execute and on
  every redo that finds a command on the redo stack. The redo stack is emptied by every
  new execute; a redo takes only the top command off the redo stack and keeps the rest;
  an undo that finds a command on the undo stack moves it to the redo stack, and no
  request other than an undo makes the redo stack longer. In particular, when the undo
  stack holds b above a, two undos followed by one redo leave b on the redo stack.
\<close>

theorem history_stack_growth:
  "undoStack (DiagramFactory_getDiagram ''Graph'' t coord s) =
     \<lparr> cmd_id = cmd_next s, cmd_type = t, cmd_coord = coord \<rparr> # undoStack s \<and>
   redoStack (DiagramFactory_getDiagram ''Graph'' t coord s) = [] \<and>
   (redoStack s = rcmd # rrest \<longrightarrow>
      undoStack (DiagramFactory_redo s) = rcmd # undoStack s \<and>
      redoStack (DiagramFactory_redo s) = rrest) \<and>
   (undoStack s = ucmd # urest \<longrightarrow>
      undoStack (DiagramFactory_undo s) = urest \<and>
      redoStack (DiagramFactory_undo s) = ucmd # redoStack s) \<and>
   (r \<noteq> Undo \<longrightarrow> length (redoStack (step r s)) \<le> length (redoStack s)) \<and>
   (undoStack s = b # a # rest \<longrightarrow>
      redoStack (run [Undo, Undo, Redo] s) = b # redoStack s \<and>
      undoStack (run [Undo, Undo, Redo] s) = a # rest)"
  by (simp add: DiagramFactory_getDiagram_def createGraph_undoStack createGraph_redoStack
      redo_Cons_stacks undo_Cons step_history_length)

theorem history_stack_growth_witness:
  "undoStack (run [GetDiagram ''Graph'' ''Line'' ''(10,20)'', GetDiagram ''Graph'' ''Bar'' ''(15,30)'',
                   GetDiagram ''Graph'' ''Line'' ''(1,1)'', Undo] initial) =
     [\<lparr> cmd_id = 1, cmd_type = ''Bar'', cmd_coord = ''(15,30)'' \<rparr>,
      \<lparr> cmd_id = 0, cmd_type = ''Line'', cmd_coord = ''(10,20)'' \<rparr>] \<and>
   redoStack (run [GetDiagram ''Graph'' ''Line'' ''(10,20)'', GetDiagram ''Graph'' ''Bar'' ''(15,30)'',
                   GetDiagram ''Graph'' ''Line'' ''(1,1)'', Undo] initial) =
     [\<lparr> cmd_id = 2, cmd_type = ''Line'', cmd_coord = ''(1,1)'' \<rparr>] \<and>
   Redo \<noteq> Undo \<and>
   undoStack (run [GetDiagram ''Graph'' ''Line'' ''(10,20)'', GetDiagram ''Graph'' ''Bar'' ''(15,30)'',
                   GetDiagram ''Graph'' ''Line'' ''(1,1)'', Undo, Redo] initial) =
     [\<lparr> cmd_id = 2, cmd_type = ''Line'', cmd_coord = ''(1,1)'' \<rparr>,
      \<lparr> cmd_id = 1, cmd_type = ''Bar'', cmd_coord = ''(15,30)'' \<rparr>,
      \<lparr> cmd_id = 0, cmd_type = ''Line'', cmd_coord = ''(10,20)'' \<rparr>] \<and>
   redoStack (run [GetDiagram ''Graph'' ''Line'' ''(10,20)'', GetDiagram ''Graph'' ''Bar'' ''(15,30)'',
                   GetDiagram ''Graph'' ''Line'' ''(1,1)'', Undo, Undo, Undo, Redo] initial) =
     [\<lparr> cmd_id = 1, cmd_type = ''Bar'', cmd_coord = ''(15,30)'' \<rparr>,
      \<lparr> cmd_id = 2, cmd_type = ''Line'', cmd_coord = ''(1,1)'' \<rparr>] \<and>
   redoStack (run [GetDiagram ''Graph'' ''Line'' ''(10,20)'', GetDiagram ''Graph'' ''Bar'' ''(15,30)'',
                   GetDiagram ''Graph'' ''Line'' ''(1,1)'', Undo, Undo] initial) =
     [\<lparr> cmd_id = 1, cmd_type = ''Bar'', cmd_coord = ''(15,30)'' \<rparr>,
      \<lparr> cmd_id = 2, cmd_type = ''Line'', cmd_coord = ''(1,1)'' \<rparr>] \<and>
   length (redoStack (run [GetDiagram ''Graph'' ''Line'' ''(10,20)'',
                           GetDiagram ''Graph'' ''Bar'' ''(15,30)'',
                           GetDiagram ''Graph'' ''Line'' ''(1,1)'', Undo, Redo] initial)) \<le> 1"
proof -
  let ?s = "run [GetDiagram ''Graph'' ''Line'' ''(10,20)'', GetDiagram ''Graph'' ''Bar'' ''(15,30)'',
                 GetDiagram ''Graph'' ''Line'' ''(1,1)'', Undo] initial"
  let ?l = "\<lparr> cmd_id = 0, cmd_type = ''Line'', cmd_coord = ''(10,20)'' \<rparr>"
  let ?b = "\<lparr> cmd_id = 1, cmd_type = ''Bar'', cmd_coord = ''(15,30)'' \<rparr>"
  let ?c = "\<lparr> cmd_id = 2, cmd_type = ''Line'', cmd_coord = ''(1,1)'' \<rparr>"
  have u: "undoStack ?s = ?b # ?l # []" and r: "redoStack ?s = ?c # []"
    by (simp_all add: exec_defs)
  note t = history_stack_growth [where s = ?s and rcmd = ?c and rrest = "[]" and ucmd = ?b
      and urest = "[?l]" and r = Redo and b = ?b and a = ?l and rest = "[]"]
  have 1: "undoStack (DiagramFactory_redo ?s) = ?c # undoStack ?s"
    using t r by blast
  have 2: "redoStack (run [Undo, Undo, Redo] ?s) = ?b # redoStack ?s"
    using t u by blast
  have 3: "run [Undo, Undo, Redo] ?s =
      run [GetDiagram ''Graph'' ''Line'' ''(10,20)'', GetDiagram ''Graph'' ''Bar'' ''(15,30)'',
           GetDiagram ''Graph'' ''Line'' ''(1,1)'', Undo, Undo, Undo, Redo] initial"
    by simp
  have 4: "DiagramFactory_redo ?s =
      run [GetDiagram ''Graph'' ''Line'' ''(10,20)'', GetDiagram ''Graph'' ''Bar'' ''(15,30)'',
           GetDiagram ''Graph'' ''Line'' ''(1,1)'', Undo, Redo] initial"
    by simp
  have 5: "redoStack (DiagramFactory_undo ?s) = ?b # redoStack ?s"
    using t u by blast
  have 6: "DiagramFactory_undo ?s =
      run [GetDiagram ''Graph'' ''Line'' ''(10,20)'', GetDiagram ''Graph'' ''Bar'' ''(15,30)'',
           GetDiagram ''Graph'' ''Line'' ''(1,1)'', Undo, Undo] initial"
    by simp
  have "Redo \<noteq> Undo" by simp
  with t have 7: "length (redoStack (step Redo ?s)) \<le> length (redoStack ?s)"
    by blast
  have 8: "step Redo ?s = DiagramFactory_redo ?s" by simp
  show ?thesis
    using u r 1 2 5 7 unfolding 3 4 6 8 by simp
qed

text \<open>
  The claim C4 as it was written fails on the code: \<^verbatim>\<open>redo()\<close> does not empty the redo
  stack. After two executes, two undos and one redo the redo stack still holds the
  command undone first. A \<^verbatim>\<open>redo()\<close> on an empty redo stack does not make the undo
  stack grow either.
\<close>

theorem redo_keeps_rest_of_redo_stack:
  "redoStack (run [GetDiagram ''Graph'' ''Line'' ''(10,20)'', GetDiagram ''Graph'' ''Bar'' ''(15,30)'',
                   Undo, Undo, Redo] initial)
     = [\<lparr> cmd_id = 1, cmd_type = ''Bar'', cmd_coord = ''(15,30)'' \<rparr>] \<and>
   redoStack (run [GetDiagram ''Graph'' ''Line'' ''(10,20)'', GetDiagram ''Graph'' ''Bar'' ''(15,30)'',
                   Undo, Undo, Redo] initial) \<noteq> [] \<and>
   length (undoStack (run [Redo] initial)) = length (undoStack initial)"
  by (simp add: exec_defs)

text \<open>
  Claim C5. \<^verbatim>\<open>undo()\<close> on an empty undo stack and \<^verbatim>\<open>redo()\<close> on an empty redo stack
  return the state they were given: both stacks, the output written so far and every
  other part of the state are the same, so nothing was written and nothing failed.
\<close>

theorem undo_redo_on_empty_stack:
  "(undoStack s = [] \<longrightarrow> DiagramFactory_undo s = s) \<and>
   (redoStack s = [] \<longrightarrow> DiagramFactory_redo s = s)"
  by (simp add: undo_empty redo_empty)

theorem undo_redo_on_empty_stack_witness:
  "undoStack initial = [] \<and> redoStack initial = [] \<and>
   DiagramFactory_undo initial = initial \<and> DiagramFactory_redo initial = initial"
proof -
  have u: "undoStack initial = []" and r: "redoStack initial = []"
    by (simp_all add: initial_def)
  from undo_redo_on_empty_stack [of initial] u r
  have "DiagramFactory_undo initial = initial" "DiagramFactory_redo initial = initial"
    by blast+
  with u r show ?thesis by simp
qed

text \<open>
  Claim C9. For every style string, recognised or not,
  \<^verbatim>\<open>getDiagram("Graph", style, coord)\<close> pushes a new command for the request on the undo
  stack and empties the redo stack. An \<^verbatim>\<open>undo()\<close> right after it pops that command,
  writes the acknowledgment \<^verbatim>\<open>Undo creation of graph: \<close> followed by the style, and
  puts the command on the redo stack. When the style is neither \<^verbatim>\<open>"Bar"\<close> nor
  \<^verbatim>\<open>"Line"\<close> the request changes nothing but the history: no diagram is built, yet the
  command is on the undo stack.
\<close>

theorem unknown_style_enters_history:
  "undoStack (DiagramFactory_getDiagram ''Graph'' style coord s) =
     \<lparr> cmd_id = cmd_next s, cmd_type = style, cmd_coord = coord \<rparr> # undoStack s \<and>
   redoStack (DiagramFactory_getDiagram ''Graph'' style coord s) = [] \<and>
   DiagramFactory_undo (DiagramFactory_getDiagram ''Graph'' style coord s) =
     (DiagramFactory_getDiagram ''Graph'' style coord s)
       \<lparr> cout := cout (DiagramFactory_getDiagram ''Graph'' style coord s) @
                   [''Undo creation of graph: '' @ style],
          undoStack := undoStack s,
          redoStack := [\<lparr> cmd_id = cmd_next s, cmd_type = style, cmd_coord = coord \<rparr>] \<rparr> \<and>
   (style \<noteq> ''Bar'' \<and> style \<noteq> ''Line'' \<longrightarrow>
      DiagramFactory_getDiagram ''Graph'' style coord s =
        s\<lparr> undoStack := \<lparr> cmd_id = cmd_next s, cmd_type = style, cmd_coord = coord \<rparr> # undoStack s,
           redoStack := [], cmd_next := Suc (cmd_next s) \<rparr>)"
proof (intro conjI impI)
  show "undoStack (DiagramFactory_getDiagram ''Graph'' style coord s) =
     \<lparr> cmd_id = cmd_next s, cmd_type = style, cmd_coord = coord \<rparr> # undoStack s"
    by (simp add: DiagramFactory_getDiagram_def createGraph_undoStack)
  show "redoStack (DiagramFactory_getDiagram ''Graph'' style coord s) = []"
    by (simp add: DiagramFactory_getDiagram_def createGraph_redoStack)
  show "DiagramFactory_undo (DiagramFactory_getDiagram ''Graph'' style coord s) =
     (DiagramFactory_getDiagram ''Graph'' style coord s)
       \<lparr> cout := cout (DiagramFactory_getDiagram ''Graph'' style coord s) @
                   [''Undo creation of graph: '' @ style],
          undoStack := undoStack s,
          redoStack := [\<lparr> cmd_id = cmd_next s, cmd_type = style, cmd_coord = coord \<rparr>] \<rparr>"
    by (simp add: DiagramFactory_getDiagram_def undo_Cons [OF createGraph_undoStack]
        createGraph_redoStack)
  show "DiagramFactory_getDiagram ''Graph'' style coord s =
        s\<lparr> undoStack := \<lparr> cmd_id = cmd_next s, cmd_type = style, cmd_coord = coord \<rparr> # undoStack s,
           redoStack := [], cmd_next := Suc (cmd_next s) \<rparr>"
    if "style \<noteq> ''Bar'' \<and> style \<noteq> ''Line''"
    using that
    by (simp add: DiagramFactory_getDiagram_def GraphFactory_createGraph_unknown
        DiagramFactory_createGraph_def CreateGraphCommand_execute_def Undo_addCommand_def
        Redo_clear_def Let_def clear_loop_Nil)
qed

theorem unknown_style_enters_history_witness:
  "''Bogus'' \<noteq> ''Bar'' \<and> ''Bogus'' \<noteq> ''Line'' \<and>
   DiagramFactory_getDiagram ''Graph'' ''Bogus'' ''(0,0)'' initial =
     initial\<lparr> undoStack := [\<lparr> cmd_id = 0, cmd_type = ''Bogus'', cmd_coord = ''(0,0)'' \<rparr>],
              redoStack := [], cmd_next := 1 \<rparr> \<and>
   cout (DiagramFactory_undo (DiagramFactory_getDiagram ''Graph'' ''Bogus'' ''(0,0)'' initial)) =
     [''Undo creation of graph: Bogus'']"
proof -
  have n: "''Bogus'' \<noteq> ''Bar'' \<and> ''Bogus'' \<noteq> ''Line''" by simp
  have i: "undoStack initial = []" "cmd_next initial = 0" "cout initial = []"
    by (simp_all add: initial_def)
  note t = unknown_style_enters_history [of "''Bogus''" "''(0,0)''" initial]
  from t n have g: "DiagramFactory_getDiagram ''Graph'' ''Bogus'' ''(0,0)'' initial =
      initial\<lparr> undoStack := \<lparr> cmd_id = cmd_next initial, cmd_type = ''Bogus'',
                   cmd_coord = ''(0,0)'' \<rparr> # undoStack initial,
               redoStack := [], cmd_next := Suc (cmd_next initial) \<rparr>"
    by blast
  have "cout (DiagramFactory_undo (DiagramFactory_getDiagram ''Graph'' ''Bogus'' ''(0,0)'' initial))
      = cout (DiagramFactory_getDiagram ''Graph'' ''Bogus'' ''(0,0)'' initial) @
          [''Undo creation of graph: '' @ ''Bogus'']"
    by (subst t [THEN conjunct2, THEN conjunct2, THEN conjunct1]) simp
  with g i n show ?thesis by simp
qed

section \<open>Properties of graph construction\<close>

text \<open>
  Claim C6. A request whose element is neither \<^verbatim>\<open>"Graph"\<close> nor \<^verbatim>\<open>"Figure"\<close> returns
  the state it was given. A graph style that is neither \<^verbatim>\<open>"Bar"\<close> nor \<^verbatim>\<open>"Line"\<close>
  (compared as whole strings, so \<^verbatim>\<open>"bar"\<close> is unknown) makes the graph factory return
  the state it was given, and through the facade nothing is written, no builder gets
  a coordinate and no figure is made. The operations have no result besides the
  state, so there is nothing by which they could signal a failure.
\<close>

theorem unknown_request_is_silent:
  "(element \<noteq> ''Graph'' \<and> element \<noteq> ''Figure'' \<longrightarrow>
      DiagramFactory_getDiagram element t coord s = s) \<and>
   (style \<noteq> ''Bar'' \<and> style \<noteq> ''Line'' \<longrightarrow>
      GraphFactory_createGraph style coord s = s \<and>
      cout (DiagramFactory_getDiagram ''Graph'' style coord s) = cout s \<and>
      bar_coord (DiagramFactory_getDiagram ''Graph'' style coord s) = bar_coord s \<and>
      line_coord (DiagramFactory_getDiagram ''Graph'' style coord s) = line_coord s \<and>
      pool (DiagramFactory_getDiagram ''Graph'' style coord s) = pool s \<and>
      fly_heap (DiagramFactory_getDiagram ''Graph'' style coord s) = fly_heap s \<and>
      fly_next (DiagramFactory_getDiagram ''Graph'' style coord s) = fly_next s)"
  by (simp add: DiagramFactory_getDiagram_def GraphFactory_createGraph_unknown
      DiagramFactory_createGraph_def CreateGraphCommand_execute_def Undo_addCommand_def
      Redo_clear_def Let_def)

theorem unknown_request_is_silent_witness:
  "''graph'' \<noteq> ''Graph'' \<and> ''graph'' \<noteq> ''Figure'' \<and> ''bar'' \<noteq> ''Bar'' \<and> ''bar'' \<noteq> ''Line'' \<and>
   DiagramFactory_getDiagram ''graph'' ''Bar'' ''(15,30)'' initial = initial \<and>
   GraphFactory_createGraph ''bar'' ''(15,30)'' initial = initial \<and>
   cout (DiagramFactory_getDiagram ''Graph'' ''bar'' ''(15,30)'' initial) = []"
proof -
  have e: "''graph'' \<noteq> ''Graph'' \<and> ''graph'' \<noteq> ''Figure''"
    and st: "''bar'' \<noteq> ''Bar'' \<and> ''bar'' \<noteq> ''Line''"
    by simp_all
  have c: "cout initial = []" by (simp add: initial_def)
  note t = unknown_request_is_silent [where element = "''graph''" and t = "''Bar''"
      and coord = "''(15,30)''" and s = initial and style = "''bar''"]
  from t e have 1: "DiagramFactory_getDiagram ''graph'' ''Bar'' ''(15,30)'' initial = initial"
    by blast
  from t st have 2: "GraphFactory_createGraph ''bar'' ''(15,30)'' initial = initial"
    and 3: "cout (DiagramFactory_getDiagram ''Graph'' ''bar'' ''(15,30)'' initial) = cout initial"
    by blast+
  from e st 1 2 3 c show ?thesis by simp
qed

text \<open>
  Claim C7. The director calls, on the builder it was given, \<^verbatim>\<open>setCoord(coord)\<close>,
  \<^verbatim>\<open>calc()\<close>, \<^verbatim>\<open>draw()\<close> and \<^verbatim>\<open>drag()\<close>, once each and in this order, whatever the
  state. \<^verbatim>\<open>draw()\<close> of either builder is the one call of the proxy, which writes one
  line. For the style \<^verbatim>\<open>"Bar"\<close> (and likewise \<^verbatim>\<open>"Line"\<close>) the whole effect is: the
  coordinate of that singleton is the new one, and exactly three lines are written,
  the \<^verbatim>\<open>calc\<close> line with the new coordinate, the proxy line, the \<^verbatim>\<open>drag\<close> line with
  the new coordinate.
\<close>

theorem director_fixed_sequence:
  "Director_construct b t coord s =
     Builder_drag b (Builder_draw b (Builder_calc b (Builder_setCoord b coord s))) \<and>
   Builder_draw b s = DrawGraph_draw s \<and>
   DrawGraph_draw s = s\<lparr> cout := cout s @ [''[Graph Proxy] Drawing graphical + textual stub''] \<rparr> \<and>
   GraphFactory_createGraph ''Bar'' coord s =
     s\<lparr> cout := cout s @ [''Bar calc at '' @ coord,
                           ''[Graph Proxy] Drawing graphical + textual stub'',
                           ''Drag Bar at '' @ coord],
        bar_coord := coord \<rparr> \<and>
   GraphFactory_createGraph ''Line'' coord s =
     s\<lparr> cout := cout s @ [''Line calc at '' @ coord,
                           ''[Graph Proxy] Drawing graphical + textual stub'',
                           ''Drag Line at '' @ coord],
        line_coord := coord \<rparr>"
proof -
  have "Builder_draw b s = DrawGraph_draw s" by (cases b) simp_all
  then show ?thesis
    by (simp add: GraphFactory_createGraph_def Director_construct_Bar Director_construct_Line
        Director_construct_def [of b] DrawGraph_draw_def)
qed

section \<open>Properties of notification\<close>

text \<open>
  Claim C8. Subscribers attached to a diagram are appended to its list in the order
  of the calls. \<^verbatim>\<open>calc\<close>, \<^verbatim>\<open>draw\<close> and \<^verbatim>\<open>drag\<close> of a \<^verbatim>\<open>Graph\<close> and of a
  \<^verbatim>\<open>Figure\<close> write their own line and then, for each subscriber of the list from the
  first attached to the last, the line of exactly one \<^verbatim>\<open>notify\<close> call with the message
  of the operation. All of it is in the output that the call returns.
\<close>

theorem notify_in_attachment_order:
  "Diagram_subscribers (attach_all d subs) = Diagram_subscribers d @ subs \<and>
   Diagram_calc (Graph ss) out =
     out @ ''Calculating Graph'' # concat (map (\<lambda>sub. notification sub ''Graph calculated'') ss) \<and>
   Diagram_draw (Graph ss) out =
     out @ ''[Graph] Drawing graphical representation.'' #
       concat (map (\<lambda>sub. notification sub ''Graph drawn'') ss) \<and>
   Diagram_drag (Graph ss) out =
     out @ ''Dragging Graph'' # concat (map (\<lambda>sub. notification sub ''Graph dragged'') ss) \<and>
   Diagram_calc (Figure ss) out =
     out @ ''Calculating Figure'' # concat (map (\<lambda>sub. notification sub ''Figure calculated'') ss) \<and>
   Diagram_draw (Figure ss) out =
     out @ ''[Figure Stub] Drawing textual stub.'' #
       concat (map (\<lambda>sub. notification sub ''Figure drawn'') ss) \<and>
   Diagram_drag (Figure ss) out =
     out @ ''Dragging Figure'' # concat (map (\<lambda>sub. notification sub ''Figure dragged'') ss) \<and>
   notification RegSub msg = [''[Regular Subscriber] '' @ msg] \<and>
   notification ContrastImageSub msg = [''[Contrast Image Subscriber] '' @ msg]"
  by (simp add: attach_all_subscribers notifySubscribers_append notification_def)

section \<open>Properties of the flyweight cache\<close>

text \<open>
  Claim C2. In every state that satisfies the invariant of the store (the initial
  state does, and every request of the facade keeps it), let \<^verbatim>\<open>getFigure(key)\<close> return
  the handle \<open>h\<close>. A second call returns the same handle and changes nothing. If the
  key was not in the pool, the object under \<open>h\<close> is a new \<^verbatim>\<open>ColoredFigure\<close> when the
  key contains \<^verbatim>\<open>"Color"\<close> and a new \<^verbatim>\<open>BWFigure\<close> otherwise. After any further
  session of requests \<^verbatim>\<open>getFigure(key)\<close> still returns \<open>h\<close>, and the object under
  \<open>h\<close> still carries the key and is colored exactly when the key contains
  \<^verbatim>\<open>"Color"\<close>.
\<close>

theorem flyweight_cache_identity:
  assumes "pool_inv s" and "FlyweightFactory_getFigure key s = (h, s1)"
  shows "FlyweightFactory_getFigure key s1 = (h, s1) \<and>
    (pool s key = None \<longrightarrow>
       fly_heap s1 h = Some (if sublist ''Color'' key then ColoredFigure key []
                             else BWFigure key [])) \<and>
    (\<forall>rs. FlyweightFactory_getFigure key (run rs s1) = (h, run rs s1) \<and>
       (\<exists>obj. fly_heap (run rs s1) h = Some obj \<and> fly_type obj = key \<and>
              is_colored obj = sublist ''Color'' key))"
proof (intro conjI impI allI)
  have p1: "pool s1 key = Some h" using assms(2) by (rule getFigure_pool)
  have inv1: "pool_inv s1" using assms by (rule pool_inv_getFigure)
  show "FlyweightFactory_getFigure key s1 = (h, s1)"
    using p1 by (rule getFigure_seen)
  show "fly_heap s1 h = Some (if sublist ''Color'' key then ColoredFigure key []
                             else BWFigure key [])" if "pool s key = None"
    using assms(2) unfolding getFigure_unseen [OF that] by auto
  fix rs
  have p2: "pool (run rs s1) key = Some h" using p1 by (rule pool_run_mono)
  have inv2: "pool_inv (run rs s1)" using inv1 by (rule pool_inv_run)
  show "FlyweightFactory_getFigure key (run rs s1) = (h, run rs s1)"
    using p2 by (rule getFigure_seen)
  show "\<exists>obj. fly_heap (run rs s1) h = Some obj \<and> fly_type obj = key \<and>
              is_colored obj = sublist ''Color'' key"
    using inv2 p2 by (simp add: pool_inv_def)
qed

theorem flyweight_cache_identity_witness:
  "pool_inv initial \<and> pool initial ''CircleColor'' = None \<and>
   FlyweightFactory_getFigure ''CircleColor'' initial =
     (0, initial\<lparr> pool := [''CircleColor'' \<mapsto> 0],
                  fly_heap := [0 \<mapsto> ColoredFigure ''CircleColor'' []],
                  fly_next := 1 \<rparr>) \<and>
   fst (FlyweightFactory_getFigure ''CircleColor''
     (run [GetDiagram ''Figure'' ''SquareBW'' ''(2,3)'', GetDiagram ''Figure'' ''CircleColor'' ''(5,5)'']
       (initial\<lparr> pool := [''CircleColor'' \<mapsto> 0],
                 fly_heap := [0 \<mapsto> ColoredFigure ''CircleColor'' []],
                 fly_next := 1 \<rparr>))) = 0"
proof -
  let ?s1 = "initial\<lparr> pool := [''CircleColor'' \<mapsto> 0],
                  fly_heap := [0 \<mapsto> ColoredFigure ''CircleColor'' []],
                  fly_next := 1 \<rparr>"
  have p: "pool initial ''CircleColor'' = None" by (simp add: initial_def)
  have g: "FlyweightFactory_getFigure ''CircleColor'' initial = (0, ?s1)"
    by (simp add: exec_defs)
  note t = flyweight_cache_identity [OF pool_inv_initial g]
  from t have "FlyweightFactory_getFigure ''CircleColor''
     (run [GetDiagram ''Figure'' ''SquareBW'' ''(2,3)'', GetDiagram ''Figure'' ''CircleColor'' ''(5,5)''] ?s1)
     = (0, run [GetDiagram ''Figure'' ''SquareBW'' ''(2,3)'', GetDiagram ''Figure'' ''CircleColor'' ''(5,5)''] ?s1)"
    by blast
  then have "fst (FlyweightFactory_getFigure ''CircleColor''
     (run [GetDiagram ''Figure'' ''SquareBW'' ''(2,3)'', GetDiagram ''Figure'' ''CircleColor'' ''(5,5)''] ?s1))
     = 0"
    by (simp only: fst_conv)
  with pool_inv_initial p g show ?thesis by blast
qed

text \<open>
  Claim C10. In every state that satisfies the invariant of the store, one request
  \<^verbatim>\<open>getDiagram("Figure", key, coord)\<close> appends the regular and then the contrast
  subscriber to the list of the figure cached for the key, and a session of requests
  appends that pair once for each of its requests for this key and changes the list
  in no other way; nothing is ever removed. Starting where the key is not in the
  pool, the list has length \<open>2 n\<close> after a session with \<open>n\<close> requests for the key. The
  draw inside a request notifies the subscribers present before it and the regular
  subscriber just attached (one subscriber in the first request for a key); a draw
  through the handle after the session notifies every subscriber of the list.
\<close>

theorem figure_subscribers_accumulate:
  assumes "pool_inv s"
  shows "subscribers_of (DiagramFactory_getDiagram ''Figure'' key coord s) key =
      subscribers_of s key @ [RegSub, ContrastImageSub] \<and>
    subscribers_of (run rs s) key =
      subscribers_of s key @ concat (replicate (figure_calls key rs) [RegSub, ContrastImageSub]) \<and>
    (pool s key = None \<longrightarrow> length (subscribers_of (run rs s) key) = 2 * figure_calls key rs) \<and>
    cout (DiagramFactory_getDiagram ''Figure'' key coord s) =
      FlyweightFigure_draw (cached_figure key (subscribers_of s key @ [RegSub]))
        (cout s @ [''Coordinates: '' @ coord]) \<and>
    length (cout (DiagramFactory_getDiagram ''Figure'' key coord s)) =
      length (cout s) + 2 + (length (subscribers_of s key) + 1) \<and>
    (pool (run rs s) key = Some h \<longrightarrow>
      cout (handle_draw h (run rs s)) =
        FlyweightFigure_draw (cached_figure key (subscribers_of (run rs s) key)) (cout (run rs s)) \<and>
      length (cout (handle_draw h (run rs s))) =
        length (cout (run rs s)) + 1 + length (subscribers_of (run rs s) key))"
proof (intro conjI impI)
  show "subscribers_of (DiagramFactory_getDiagram ''Figure'' key coord s) key =
      subscribers_of s key @ [RegSub, ContrastImageSub]"
    using assms by (simp add: DiagramFactory_getDiagram_def createFigure_subscribers_same)
  show run: "subscribers_of (run rs s) key =
      subscribers_of s key @ concat (replicate (figure_calls key rs) [RegSub, ContrastImageSub])"
    using assms by (rule run_subscribers)
  show "length (subscribers_of (run rs s) key) = 2 * figure_calls key rs" if "pool s key = None"
  proof -
    from that have "subscribers_of s key = []"
      by (simp add: subscribers_of_def figure_of_def)
    then show ?thesis by (simp add: run length_concat sum_list_replicate)
  qed
  show c: "cout (DiagramFactory_getDiagram ''Figure'' key coord s) =
      FlyweightFigure_draw (cached_figure key (subscribers_of s key @ [RegSub]))
        (cout s @ [''Coordinates: '' @ coord])"
    using assms by (simp add: DiagramFactory_getDiagram_def createFigure_cout)
  show "length (cout (DiagramFactory_getDiagram ''Figure'' key coord s)) =
      length (cout s) + 2 + (length (subscribers_of s key) + 1)"
    by (simp add: c length_FlyweightFigure_draw fly_subscribers_cached)
  have inv: "pool_inv (run rs s)" using assms by (rule pool_inv_run)
  assume p: "pool (run rs s) key = Some h"
  show d: "cout (handle_draw h (run rs s)) =
        FlyweightFigure_draw (cached_figure key (subscribers_of (run rs s) key)) (cout (run rs s))"
    using inv p by (rule handle_draw_cout)
  show "length (cout (handle_draw h (run rs s))) =
        length (cout (run rs s)) + 1 + length (subscribers_of (run rs s) key)"
    by (simp add: d length_FlyweightFigure_draw fly_subscribers_cached)
qed

theorem figure_subscribers_accumulate_witness:
  "pool_inv initial \<and> pool initial ''CircleColor'' = None \<and>
   subscribers_of
     (run [GetDiagram ''Figure'' ''CircleColor'' ''(5,5)'', GetDiagram ''Figure'' ''SquareBW'' ''(2,3)'',
           GetDiagram ''Graph'' ''Line'' ''(10,20)'', Undo,
           GetDiagram ''Figure'' ''CircleColor'' ''(7,7)''] initial) ''CircleColor''
     = [RegSub, ContrastImageSub, RegSub, ContrastImageSub] \<and>
   cout (DiagramFactory_getDiagram ''Figure'' ''CircleColor'' ''(5,5)'' initial) =
     [''Coordinates: (5,5)'', ''[Colored Flyweight] Drawing colored figure of type: CircleColor'',
      ''[Regular Subscriber] Colored Figure drawn'']"
proof -
  have p: "pool initial ''CircleColor'' = None" by (simp add: initial_def)
  have e: "subscribers_of initial ''CircleColor'' = []"
    by (simp add: subscribers_of_def figure_of_def initial_def)
  have c: "sublist ''Color'' ''CircleColor''" by (simp add: sublist_code)
  have ci: "cout initial = []" by (simp add: initial_def)
  note t = figure_subscribers_accumulate [OF pool_inv_initial, of "''CircleColor''" "''(5,5)''"
      "[GetDiagram ''Figure'' ''CircleColor'' ''(5,5)'', GetDiagram ''Figure'' ''SquareBW'' ''(2,3)'',
           GetDiagram ''Graph'' ''Line'' ''(10,20)'', Undo,
           GetDiagram ''Figure'' ''CircleColor'' ''(7,7)'']"]
  have "subscribers_of
     (run [GetDiagram ''Figure'' ''CircleColor'' ''(5,5)'', GetDiagram ''Figure'' ''SquareBW'' ''(2,3)'',
           GetDiagram ''Graph'' ''Line'' ''(10,20)'', Undo,
           GetDiagram ''Figure'' ''CircleColor'' ''(7,7)''] initial) ''CircleColor''
     = [RegSub, ContrastImageSub, RegSub, ContrastImageSub]"
    using t [THEN conjunct2, THEN conjunct1] by (simp add: e)
  moreover have "cout (DiagramFactory_getDiagram ''Figure'' ''CircleColor'' ''(5,5)'' initial) =
     [''Coordinates: (5,5)'', ''[Colored Flyweight] Drawing colored figure of type: CircleColor'',
      ''[Regular Subscriber] Colored Figure drawn'']"
    using t [THEN conjunct2, THEN conjunct2, THEN conjunct2, THEN conjunct1]
    by (simp add: e c ci cached_figure_def)
  ultimately show ?thesis using p pool_inv_initial by simp
qed

section \<open>The run of the program\<close>

text \<open>The lines that \<^verbatim>\<open>main\<close> writes, computed from the model.\<close>

lemma main_cout_lines:
  "main_cout =
     [''Line calc at (10,20)'',
      ''[Graph Proxy] Drawing graphical + textual stub'',
      ''Drag Line at (10,20)'',
      ''Bar calc at (15,30)'',
      ''[Graph Proxy] Drawing graphical + textual stub'',
      ''Drag Bar at (15,30)'',
      ''Coordinates: (5,5)'',
      ''[Colored Flyweight] Drawing colored figure of type: CircleColor'',
      ''[Regular Subscriber] Colored Figure drawn'',
      ''Coordinates: (2,3)'',
      ''[B/W Flyweight] Drawing black and white figure of type: SquareBW'',
      ''[Regular Subscriber] B/W Figure drawn'',
      ''Undo creation of graph: Bar'',
      ''Bar calc at (15,30)'',
      ''[Graph Proxy] Drawing graphical + textual stub'',
      ''Drag Bar at (15,30)'',
      ''Exporting Graph as PNG...'',
      ''Exporting Figure as JPG...'']"
  by (simp add: main_cout_def exec_defs)

end
